theory Spec2Isabelle
  imports Complex_Main "HOL-Library.AList"
begin

section \<open>Python string operations used by the scanner\<close>

text \<open>
  Strings are lists of characters. Only the operations that \<^verbatim>\<open>wifi_scanner.py\<close> and
  \<^verbatim>\<open>device_manager.py\<close> apply to addresses are modelled, on ASCII text (which is what
  \<^verbatim>\<open>arp -a\<close>, scapy and nmap print for addresses).
\<close>

definition startswith :: "string \<Rightarrow> string \<Rightarrow> bool" where
  "startswith s p = (take (length p) s = p)"

definition endswith :: "string \<Rightarrow> string \<Rightarrow> bool" where
  "endswith s p = (length p \<le> length s \<and> drop (length s - length p) s = p)"

definition upper_char :: "char \<Rightarrow> char" where
  "upper_char c =
     (case map_of (zip ''abcdefghijklmnopqrstuvwxyz'' ''ABCDEFGHIJKLMNOPQRSTUVWXYZ'') c of
        None \<Rightarrow> c
      | Some u \<Rightarrow> u)"

text \<open>\<^verbatim>\<open>str.upper()\<close>\<close>

definition upper :: "string \<Rightarrow> string" where
  "upper s = map upper_char s"

text \<open>\<^verbatim>\<open>str.replace(a, b)\<close> for one-character \<open>a\<close> and \<open>b\<close>\<close>

definition replace_char :: "char \<Rightarrow> char \<Rightarrow> string \<Rightarrow> string" where
  "replace_char a b s = map (\<lambda>c. if c = a then b else c) s"

text \<open>\<^verbatim>\<open>str.split(sep)\<close> for a one-character separator: never the empty list.\<close>

fun split_char :: "char \<Rightarrow> string \<Rightarrow> string list" where
  "split_char sep [] = [[]]"
| "split_char sep (c # cs) =
     (if c = sep then [] # split_char sep cs
      else (case split_char sep cs of
              [] \<Rightarrow> [[c]]
            | w # ws \<Rightarrow> (c # w) # ws))"

definition is_space :: "char \<Rightarrow> bool" where
  "is_space c \<longleftrightarrow>
     c \<in> set [CHR 0x09, CHR 0x0A, CHR 0x0B, CHR 0x0C, CHR 0x0D,
              CHR 0x1C, CHR 0x1D, CHR 0x1E, CHR 0x1F, CHR 0x20]"

text \<open>\<^verbatim>\<open>str.strip()\<close>\<close>

definition strip :: "string \<Rightarrow> string" where
  "strip s = rev (dropWhile is_space (rev (dropWhile is_space s)))"

text \<open>
  \<^verbatim>\<open>str.split()\<close> without a separator: the maximal runs of non-blank characters.
  The first argument is the word being read, reversed.
\<close>

fun split_ws_aux :: "string \<Rightarrow> string \<Rightarrow> string list" where
  "split_ws_aux cur [] = (if cur = [] then [] else [rev cur])"
| "split_ws_aux cur (c # cs) =
     (if is_space c
      then (if cur = [] then split_ws_aux [] cs else rev cur # split_ws_aux [] cs)
      else split_ws_aux (c # cur) cs)"

definition split_ws :: "string \<Rightarrow> string list" where
  "split_ws s = split_ws_aux [] s"

definition is_hex :: "char \<Rightarrow> bool" where
  "is_hex c \<longleftrightarrow> c \<in> set ''0123456789ABCDEFabcdef''"

text \<open>
  \<^verbatim>\<open>re.match(r'^([0-9A-Fa-f]{2}[:-]){5}([0-9A-Fa-f]{2})$', mac)\<close>: \<open>mac_groups n\<close> reads
  \<open>n\<close> groups of two hex digits and a separator, then the last two hex digits;
  \<^verbatim>\<open>$\<close> also matches before one final newline.
\<close>

fun mac_groups :: "nat \<Rightarrow> string \<Rightarrow> bool" where
  "mac_groups 0 s =
     (case s of
        [a, b] \<Rightarrow> is_hex a \<and> is_hex b
      | [a, b, e] \<Rightarrow> is_hex a \<and> is_hex b \<and> e = CHR 0x0A
      | _ \<Rightarrow> False)"
| "mac_groups (Suc n) (a # b # c # rest) =
     (is_hex a \<and> is_hex b \<and> (c = CHR '':'' \<or> c = CHR ''-'') \<and> mac_groups n rest)"
| "mac_groups (Suc n) _ = False"

definition mac_format :: "string \<Rightarrow> bool" where
  "mac_format s = mac_groups 5 s"

section \<open>Formatting of durations\<close>

text \<open>
  Timestamps and durations are \<^verbatim>\<open>time.time()\<close> values; they are modelled as real
  numbers (the rounding of floating-point arithmetic is not modelled).
\<close>

fun digits :: "nat \<Rightarrow> string" where
  "digits n =
     (if n < 10 then [''0123456789'' ! n]
      else digits (n div 10) @ [''0123456789'' ! (n mod 10)])"

declare digits.simps [simp del]

text \<open>The format specification \<^verbatim>\<open>:02d\<close>: at least two characters, the sign included.\<close>

definition fmt_02d :: "int \<Rightarrow> string" where
  "fmt_02d i =
     (if i < 0 then CHR ''-'' # digits (nat (- i))
      else (let ds = digits (nat i) in if length ds < 2 then CHR ''0'' # ds else ds))"

text \<open>Python's \<^verbatim>\<open>x // y\<close> and \<^verbatim>\<open>x % y\<close> on floats, and \<^verbatim>\<open>int(x)\<close>.\<close>

definition floordiv :: "real \<Rightarrow> real \<Rightarrow> real" where
  "floordiv x y = of_int \<lfloor>x / y\<rfloor>"

definition pymod :: "real \<Rightarrow> real \<Rightarrow> real" where
  "pymod x y = x - y * of_int \<lfloor>x / y\<rfloor>"

definition py_int :: "real \<Rightarrow> int" where
  "py_int x = (if 0 \<le> x then \<lfloor>x\<rfloor> else \<lceil>x\<rceil>)"

definition format_duration :: "real \<Rightarrow> string" where
  "format_duration seconds =
     (let hours = py_int (floordiv seconds 3600);
          minutes = py_int (floordiv (pymod seconds 3600) 60);
          secs = py_int (pymod seconds 60)
      in fmt_02d hours @ '':'' @ fmt_02d minutes @ '':'' @ fmt_02d secs)"

section \<open>Configuration and persistence store (config.py)\<close>

text \<open>
  The network detection of \<^verbatim>\<open>Config\<close> runs external commands; its three results are
  taken as given.
\<close>

record config =
  NETWORK_INTERFACE :: string
  NETWORK_RANGE :: string
  LOCAL_IP :: string

text \<open>A blacklist entry: \<^verbatim>\<open>{'timestamp': ..., 'reason': ..., 'ip': ...}\<close>; the ip may be \<^verbatim>\<open>None\<close>.\<close>

record bl_entry =
  timestamp :: string
  reason :: string
  entry_ip :: "string option"

type_synonym blacklist_map = "(string \<times> bl_entry) list"

datatype exn = NameError string | OSError | JSONDecodeError

text \<open>The values \<^verbatim>\<open>json.load\<close> can return.\<close>

datatype json =
    JNull
  | JBool bool
  | JNumber real
  | JString string
  | JArray "json list"
  | JObject "(string \<times> json) list"

text \<open>
  What \<^verbatim>\<open>load_blacklist\<close> hands to its caller: a mapping of blacklist entries, or
  any other value that \<^verbatim>\<open>json.load\<close> produced (\<^verbatim>\<open>None\<close>, a list, a number, a string, a
  dictionary of another shape).
\<close>

datatype loaded = Entries blacklist_map | Other_value json

text \<open>
  The file \<^verbatim>\<open>blacklist.json\<close>: absent, present but not readable (\<^verbatim>\<open>open\<close> raises),
  present with text that \<^verbatim>\<open>json.load\<close> rejects, holding a serialised mapping of entries,
  or holding valid JSON that is not a mapping of entries.
  \<open>writable\<close> tells whether \<^verbatim>\<open>open('blacklist.json', 'w')\<close> succeeds.
\<close>

datatype file_state =
    Missing
  | Unreadable
  | Corrupt
  | Stored blacklist_map
  | Other_json json

record store =
  blacklist_file :: file_state
  writable :: bool

text \<open>The body of the \<^verbatim>\<open>try\<close> block of \<^verbatim>\<open>load_blacklist\<close>; \<open>Inr None\<close> when it falls through.\<close>

definition read_blacklist :: "store \<Rightarrow> exn + loaded option" where
  "read_blacklist st =
     (case blacklist_file st of
        Missing \<Rightarrow> Inr None
      | Unreadable \<Rightarrow> Inl OSError
      | Corrupt \<Rightarrow> Inl JSONDecodeError
      | Stored b \<Rightarrow> Inr (Some (Entries b))
      | Other_json j \<Rightarrow> Inr (Some (Other_value j)))"

text \<open>
  \<^verbatim>\<open>load_blacklist\<close>: the value of \<^verbatim>\<open>json.load\<close> is returned as it is; an exception of the
  \<^verbatim>\<open>try\<close> block and a missing file both end in \<^verbatim>\<open>return {}\<close>.
\<close>

definition load_blacklist :: "store \<Rightarrow> exn + loaded" where
  "load_blacklist st =
     (case read_blacklist st of
        Inr (Some v) \<Rightarrow> Inr v
      | Inr None \<Rightarrow> Inr (Entries [])
      | Inl e \<Rightarrow> Inr (Entries []))"

definition save_blacklist :: "blacklist_map \<Rightarrow> store \<Rightarrow> exn + store" where
  "save_blacklist b st = (if writable st then Inr (st\<lparr>blacklist_file := Stored b\<rparr>) else Inl OSError)"

section \<open>Device directory (device_manager.py)\<close>

record device_info =
  ip :: string
  mac :: string
  hostname :: string

record device_rec = device_info +
  first_seen :: real
  last_seen :: real
  connection_duration :: real
  is_blacklisted :: bool

text \<open>The three dictionaries of a \<^verbatim>\<open>DeviceManager\<close>, in insertion order.\<close>

record dm_state =
  devices :: "(string \<times> device_rec) list"
  blacklist :: blacklist_map
  connection_times :: "(string \<times> real) list"

text \<open>
  \<^verbatim>\<open>__init__\<close>. A \<open>dm_state\<close> holds a mapping of entries as its blacklist; when
  \<^verbatim>\<open>load_blacklist\<close> returns another value the manager is not a \<open>dm_state\<close>, and the
  result is \<open>Inr None\<close>.
\<close>

definition DeviceManager_init :: "store \<Rightarrow> exn + dm_state option" where
  "DeviceManager_init st =
     (case load_blacklist st of
        Inl e \<Rightarrow> Inl e
      | Inr (Entries b) \<Rightarrow> Inr (Some \<lparr>devices = [], blacklist = b, connection_times = []\<rparr>)
      | Inr (Other_value j) \<Rightarrow> Inr None)"

text \<open>\<open>current_time\<close> is the value \<^verbatim>\<open>time.time()\<close> returns inside the call.\<close>

definition update_device :: "real \<Rightarrow> device_info \<Rightarrow> dm_state \<Rightarrow> dm_state" where
  "update_device current_time info s =
     (let m = mac info;
          (t0, cts) = (case map_of (connection_times s) m of
                         None \<Rightarrow> (current_time, AList.update m current_time (connection_times s))
                       | Some t \<Rightarrow> (t, connection_times s))
      in s\<lparr>connection_times := cts,
            devices := AList.update m
              \<lparr>ip = ip info, mac = m, hostname = hostname info,
               first_seen = t0,
               last_seen = current_time,
               connection_duration = current_time - t0,
               is_blacklisted = (m \<in> fst ` set (blacklist s))\<rparr> (devices s)\<rparr>)"

text \<open>An element of the list \<^verbatim>\<open>get_all_devices\<close> returns.\<close>

record device_view =
  view_mac :: string
  view_ip :: string
  view_hostname :: string
  view_connection_duration :: string
  view_is_blacklisted :: bool
  view_first_seen :: string
  status :: string

text \<open>
  \<open>strftime\<close> stands for \<^verbatim>\<open>datetime.fromtimestamp(t).strftime('%Y-%m-%d %H:%M:%S')\<close>, which
  depends on the local time zone.
\<close>

definition get_all_devices :: "(real \<Rightarrow> string) \<Rightarrow> real \<Rightarrow> dm_state \<Rightarrow> device_view list" where
  "get_all_devices strftime current_time s =
     map (\<lambda>(m, info).
            \<lparr>view_mac = m,
             view_ip = ip info,
             view_hostname = hostname info,
             view_connection_duration = format_duration (connection_duration info),
             view_is_blacklisted = is_blacklisted info,
             view_first_seen = strftime (first_seen info),
             status = (if current_time - last_seen info < 300 then ''ACTIVE'' else ''OFFLINE'')\<rparr>)
         (devices s)"

text \<open>Python's truth value of \<^verbatim>\<open>device_ip\<close>: neither \<^verbatim>\<open>None\<close> nor the empty string.\<close>

definition truthy :: "string option \<Rightarrow> bool" where
  "truthy v = (case v of None \<Rightarrow> False | Some x \<Rightarrow> x \<noteq> [])"

text \<open>
  \<^verbatim>\<open>device_manager.py\<close> imports \<^verbatim>\<open>time\<close>, \<^verbatim>\<open>datetime\<close> and \<^verbatim>\<open>config\<close> only, so evaluating
  \<^verbatim>\<open>platform.system()\<close> raises \<^verbatim>\<open>NameError\<close>; \<^verbatim>\<open>device_ip and platform.system() == ...\<close>
  evaluates it exactly when \<open>device_ip\<close> is true. The result is the outcome of the call
  with the manager and the store as the call leaves them. \<open>now_iso\<close> is
  \<^verbatim>\<open>datetime.now().isoformat()\<close>.
\<close>

definition blacklist_device ::
  "string \<Rightarrow> string \<Rightarrow> string \<Rightarrow> dm_state \<Rightarrow> store \<Rightarrow> (exn + unit) \<times> dm_state \<times> store" where
  "blacklist_device now_iso mac_address rsn s st =
     (let device_ip = map_option ip (map_of (devices s) mac_address);
          s' = s\<lparr>blacklist := AList.update mac_address
                  \<lparr>timestamp = now_iso, reason = rsn, entry_ip = device_ip\<rparr> (blacklist s)\<rparr>
      in case save_blacklist (blacklist s') st of
           Inl e \<Rightarrow> (Inl e, s', st)
         | Inr st' \<Rightarrow>
             if truthy device_ip then (Inl (NameError ''platform''), s', st')
             else (Inr (), s', st'))"

definition remove_from_blacklist ::
  "string \<Rightarrow> dm_state \<Rightarrow> store \<Rightarrow> (exn + unit) \<times> dm_state \<times> store" where
  "remove_from_blacklist mac_address s st =
     (case map_of (blacklist s) mac_address of
        None \<Rightarrow> (Inr (), s, st)
      | Some e \<Rightarrow>
          (let device_ip = entry_ip e;
               s' = s\<lparr>blacklist := AList.delete mac_address (blacklist s)\<rparr>
           in case save_blacklist (blacklist s') st of
                Inl x \<Rightarrow> (Inl x, s', st)
              | Inr st' \<Rightarrow>
                  if truthy device_ip then (Inl (NameError ''platform''), s', st')
                  else (Inr (), s', st')))"

section \<open>Scan backends and merge (wifi_scanner.py)\<close>

text \<open>\<^verbatim>\<open>WiFiScanner._is_valid_device(ip, mac)\<close>\<close>

definition is_valid_device :: "config \<Rightarrow> string \<Rightarrow> string \<Rightarrow> bool" where
  "is_valid_device cfg a m =
     (if m \<in> set [''FF-FF-FF-FF-FF-FF'', ''00:00:00:00:00:00''] then False
      else if endswith a ''.255'' \<or> startswith a ''224.'' \<or> startswith a ''239.'' then False
      else if a = LOCAL_IP cfg then False
      else True)"

text \<open>
  What one host of an nmap scan gives: the host address, the truth value of
  \<^verbatim>\<open>self.nm[host]\<close>, \<^verbatim>\<open>self.nm[host]['addresses'].get('mac')\<close> and
  \<^verbatim>\<open>self.nm[host].hostname()\<close>.
\<close>

record nm_host =
  host :: string
  known :: bool
  addr_mac :: "string option"
  nm_hostname :: string

text \<open>
  The outside world during one call of \<^verbatim>\<open>get_connected_devices\<close>:
  \<^item> \<open>windows\<close>: \<^verbatim>\<open>platform.system() == "Windows"\<close>;
  \<^item> \<open>arp_stdout\<close>: the output of \<^verbatim>\<open>arp -a\<close>, \<open>None\<close> when \<^verbatim>\<open>subprocess.run\<close> raises;
  \<^item> \<open>srp_answers\<close>: \<^verbatim>\<open>(received.psrc, received.hwsrc)\<close> of every answer of scapy's
    \<^verbatim>\<open>srp\<close>, \<open>None\<close> when it raises;
  \<^item> \<open>nm_scan\<close>: the hosts of \<^verbatim>\<open>self.nm.scan(hosts=range, arguments='-sn')\<close>, \<open>None\<close> when
    it raises;
  \<^item> \<open>get_hostname\<close>: the name resolution of \<^verbatim>\<open>WiFiScanner.get_hostname\<close>;
  \<^item> \<open>clock\<close>: the value of the \<open>k\<close>-th call of \<^verbatim>\<open>time.time()\<close>;
  \<^item> \<open>strftime\<close>: the rendering of a timestamp in local time.
\<close>

record scan_env =
  windows :: bool
  arp_stdout :: "string option"
  srp_answers :: "(string \<times> string) list option"
  nm_scan :: "string \<Rightarrow> nm_host list option"
  get_hostname :: "string \<Rightarrow> string"
  clock :: "nat \<Rightarrow> real"
  strftime :: "real \<Rightarrow> string"

text \<open>
  A \<^verbatim>\<open>WiFiScanner\<close> with the class-level flag \<^verbatim>\<open>NmapState._available\<close>; \<open>nm\<close> tells
  whether \<^verbatim>\<open>self.nm\<close> is a scanner object (not \<^verbatim>\<open>None\<close>).
\<close>

record scanner =
  device_manager :: dm_state
  nmap_available :: bool
  nm :: bool

text \<open>One line of the \<^verbatim>\<open>arp -a\<close> output, as the loop body of \<^verbatim>\<open>get_windows_arp_table\<close>.\<close>

definition arp_line :: "config \<Rightarrow> (string \<Rightarrow> string) \<Rightarrow> string \<Rightarrow> device_info option" where
  "arp_line cfg resolve raw =
     (let line = strip raw in
      if line = [] \<or> \<not> startswith line (hd (split_char CHR ''.'' (NETWORK_RANGE cfg))) then None
      else (case split_ws line of
              a # m0 # _ \<Rightarrow>
                if \<not> mac_format m0 then None
                else (let m = upper (replace_char CHR ''-'' CHR '':'' m0) in
                      if is_valid_device cfg a m
                      then Some \<lparr>ip = a, mac = m, hostname = resolve a\<rparr>
                      else None)
            | _ \<Rightarrow> None))"

definition get_windows_arp_table :: "config \<Rightarrow> scan_env \<Rightarrow> device_info list" where
  "get_windows_arp_table cfg env =
     (case arp_stdout env of
        None \<Rightarrow> []
      | Some out \<Rightarrow> List.map_filter (arp_line cfg (get_hostname env)) (split_char CHR 0x0A out))"

definition scan_arp :: "config \<Rightarrow> scan_env \<Rightarrow> device_info list" where
  "scan_arp cfg env =
     (if windows env then get_windows_arp_table cfg env
      else (case srp_answers env of
              None \<Rightarrow> []
            | Some res \<Rightarrow>
                List.map_filter
                  (\<lambda>(psrc, hwsrc).
                     if is_valid_device cfg psrc hwsrc
                     then Some \<lparr>ip = psrc, mac = hwsrc, hostname = get_hostname env psrc\<rparr>
                     else None) res))"

text \<open>\<^verbatim>\<open>self.nm[host]['addresses'].get('mac', 'Unknown')\<close>\<close>

definition mac_or_unknown :: "nm_host \<Rightarrow> string" where
  "mac_or_unknown h = (case addr_mac h of None \<Rightarrow> ''Unknown'' | Some m \<Rightarrow> m)"

definition nmap_device :: "config \<Rightarrow> (string \<Rightarrow> string) \<Rightarrow> nm_host \<Rightarrow> device_info option" where
  "nmap_device cfg resolve h =
     (if \<not> known h then None
      else if mac_or_unknown h = ''Unknown'' then None
      else (let m = upper (mac_or_unknown h) in
            if is_valid_device cfg (host h) m
            then Some \<lparr>ip = host h, mac = m, hostname = resolve (host h)\<rparr>
            else None))"

text \<open>A failing scan disables nmap for the scans that follow.\<close>

definition scan_nmap :: "config \<Rightarrow> scan_env \<Rightarrow> scanner \<Rightarrow> device_info list \<times> scanner" where
  "scan_nmap cfg env sc =
     (if \<not> nmap_available sc \<or> \<not> nm sc then ([], sc)
      else (case nm_scan env (NETWORK_RANGE cfg) of
              None \<Rightarrow> ([], sc\<lparr>nmap_available := False, nm := False\<rparr>)
            | Some hs \<Rightarrow> (List.map_filter (nmap_device cfg (get_hostname env)) hs, sc)))"

definition common_ranges :: "config \<Rightarrow> string list" where
  "common_ranges cfg =
     [NETWORK_RANGE cfg, ''192.168.0.0/24'', ''192.168.1.0/24'', ''192.168.2.0/24'',
      ''192.168.3.0/24'', ''10.0.0.0/24'', ''172.16.0.0/24'']"

definition range_device :: "config \<Rightarrow> nm_host \<Rightarrow> device_info option" where
  "range_device cfg h =
     (if \<not> known h then None
      else (let m = mac_or_unknown h in
            if is_valid_device cfg (host h) m
            then Some \<lparr>ip = host h, mac = m,
                       hostname = (if nm_hostname h = [] then ''Unknown'' else nm_hostname h)\<rparr>
            else None))"

text \<open>A range whose scan raises (also because \<^verbatim>\<open>self.nm\<close> is \<^verbatim>\<open>None\<close>) is skipped.\<close>

definition scan_multiple_ranges :: "config \<Rightarrow> scan_env \<Rightarrow> scanner \<Rightarrow> device_info list" where
  "scan_multiple_ranges cfg env sc =
     (if \<not> nmap_available sc then []
      else concat (map (\<lambda>r. if \<not> nm sc then []
                             else (case nm_scan env r of
                                     None \<Rightarrow> []
                                   | Some hs \<Rightarrow> List.map_filter (range_device cfg) hs))
                       (common_ranges cfg)))"

text \<open>\<^verbatim>\<open>for device in ds: merged_devices[device['mac']] = device\<close>\<close>

definition put_all ::
  "device_info list \<Rightarrow> (string \<times> device_info) list \<Rightarrow> (string \<times> device_info) list" where
  "put_all ds merged = fold (\<lambda>d acc. AList.update (mac d) d acc) ds merged"

definition merged_devices ::
  "device_info list \<Rightarrow> device_info list \<Rightarrow> (string \<times> device_info) list" where
  "merged_devices arp_devices nmap_devices = put_all nmap_devices (put_all arp_devices [])"

text \<open>
  The loop that feeds the merged map to the directory; \<open>k\<close> counts the calls of
  \<^verbatim>\<open>time.time()\<close> made so far.
\<close>

fun update_all ::
  "(nat \<Rightarrow> real) \<Rightarrow> nat \<Rightarrow> (string \<times> device_info) list \<Rightarrow> dm_state \<Rightarrow> nat \<times> dm_state" where
  "update_all clk k [] s = (k, s)"
| "update_all clk k ((m, d) # rest) s =
     (if m \<noteq> ''Unknown'' then update_all clk (Suc k) rest (update_device (clk k) d s)
      else update_all clk k rest s)"

definition get_connected_devices ::
  "config \<Rightarrow> scan_env \<Rightarrow> scanner \<Rightarrow> device_view list \<times> scanner" where
  "get_connected_devices cfg env sc =
     (let arp_devices = scan_arp cfg env;
          (nmap_devices, sc1) = scan_nmap cfg env sc;
          merged = merged_devices arp_devices nmap_devices;
          merged' = (if merged = [] then put_all (scan_multiple_ranges cfg env sc1) merged
                     else merged);
          (k, dm) = update_all (clock env) 0 merged' (device_manager sc1)
      in (get_all_devices (strftime env) (clock env k) dm, sc1\<lparr>device_manager := dm\<rparr>))"

section \<open>Call sequences and observations used in the statements\<close>

text \<open>A sequence of \<^verbatim>\<open>update_device\<close> calls, each with the clock value it reads.\<close>

fun run_updates :: "(real \<times> device_info) list \<Rightarrow> dm_state \<Rightarrow> dm_state" where
  "run_updates [] s = s"
| "run_updates ((t, d) # cs) s = run_updates cs (update_device t d s)"

text \<open>\<^verbatim>\<open>self.devices[m]['last_seen']\<close>, when \<open>m\<close> has a record.\<close>

definition last_seen_of :: "string \<Rightarrow> dm_state \<Rightarrow> real option" where
  "last_seen_of m s = map_option last_seen (map_of (devices s) m)"

text \<open>
  The connection time of \<open>m\<close> is \<open>t0\<close> and the record of \<open>m\<close> carries it as
  \<open>first_seen\<close>.
\<close>

definition tracked :: "string \<Rightarrow> real \<Rightarrow> dm_state \<Rightarrow> bool" where
  "tracked m t0 s \<longleftrightarrow>
     map_of (connection_times s) m = Some t0 \<and>
     (\<exists>r. map_of (devices s) m = Some r \<and> first_seen r = t0)"

text \<open>What \<^verbatim>\<open>get_all_devices\<close> shows as \<^verbatim>\<open>is_blacklisted\<close> for the MAC \<open>m\<close>.\<close>

definition listed_flag :: "(real \<Rightarrow> string) \<Rightarrow> real \<Rightarrow> dm_state \<Rightarrow> string \<Rightarrow> bool option" where
  "listed_flag f now s m =
     map_option view_is_blacklisted (find (\<lambda>v. view_mac v = m) (get_all_devices f now s))"

text \<open>
  \<^verbatim>\<open>blacklist_device(mac, reason)\<close> and then \<^verbatim>\<open>remove_from_blacklist(mac)\<close> on the manager and
  the store the first call leaves, whatever the outcome of the first call.
\<close>

definition add_then_remove ::
  "string \<Rightarrow> string \<Rightarrow> string \<Rightarrow> dm_state \<Rightarrow> store \<Rightarrow> (exn + unit) \<times> dm_state \<times> store" where
  "add_then_remove now_iso mac_address rsn s st =
     (case blacklist_device now_iso mac_address rsn s st of
        (out, s1, st1) \<Rightarrow> remove_from_blacklist mac_address s1 st1)"

subsection \<open>Example inputs\<close>

definition example_config :: config where
  "example_config =
     \<lparr>NETWORK_INTERFACE = ''Wi-Fi'', NETWORK_RANGE = ''192.168.1.0/24'',
      LOCAL_IP = ''192.168.1.2''\<rparr>"

text \<open>A /25 network: its broadcast address is 192.168.1.127.\<close>

definition subnet_config :: config where
  "subnet_config =
     \<lparr>NETWORK_INTERFACE = ''Wi-Fi'', NETWORK_RANGE = ''192.168.1.0/25'',
      LOCAL_IP = ''192.168.1.2''\<rparr>"

text \<open>Name resolution that finds nothing, as \<^verbatim>\<open>get_hostname\<close> then answers.\<close>

definition unresolved :: "string \<Rightarrow> string" where
  "unresolved a = ''Unknown''"

text \<open>A clock that advances by one second with every reading.\<close>

definition ticking :: "nat \<Rightarrow> real" where
  "ticking k = 1000 + real k"

text \<open>A rendering of timestamps as whole seconds.\<close>

definition plain_time :: "real \<Rightarrow> string" where
  "plain_time t = digits (nat \<lfloor>t\<rfloor>)"

definition empty_manager :: dm_state where
  "empty_manager = \<lparr>devices = [], blacklist = [], connection_times = []\<rparr>"

definition laptop :: device_info where
  "laptop = \<lparr>ip = ''192.168.1.5'', mac = ''AA:BB:CC:DD:EE:01'', hostname = ''laptop''\<rparr>"

definition laptop_win :: device_info where
  "laptop_win = \<lparr>ip = ''192.168.1.5'', mac = ''AA:BB:CC:DD:EE:01'', hostname = ''laptop-win''\<rparr>"

definition printer :: device_info where
  "printer = \<lparr>ip = ''192.168.1.9'', mac = ''AA:BB:CC:DD:EE:02'', hostname = ''printer''\<rparr>"

text \<open>A manager that saw the laptop once, at time 700.\<close>

definition seen_manager :: dm_state where
  "seen_manager = update_device 700 laptop empty_manager"

definition open_store :: store where
  "open_store = \<lparr>blacklist_file = Missing, writable = True\<rparr>"


text \<open>The output of \<^verbatim>\<open>arp -a\<close> on Windows in the /25 network.\<close>

definition arp_table_text :: string where
  "arp_table_text =
     ''Interface: 192.168.1.2 --- 0x4'' @ [CHR 0x0A] @
     ''  Internet Address      Physical Address      Type'' @ [CHR 0x0A] @
     ''  192.168.1.127         ff-ff-ff-ff-ff-ff     static'' @ [CHR 0x0A]"

definition arp_table_env :: scan_env where
  "arp_table_env =
     \<lparr>windows = True, arp_stdout = Some arp_table_text, srp_answers = None,
      nm_scan = (\<lambda>r. None), get_hostname = unresolved, clock = ticking,
      strftime = plain_time\<rparr>"

text \<open>
  A host that is not Windows: scapy answers with the hardware address in lower case,
  nmap reports the same interface in upper case.
\<close>

definition linux_env :: scan_env where
  "linux_env =
     \<lparr>windows = False, arp_stdout = None,
      srp_answers = Some [(''192.168.1.5'', ''aa:bb:cc:dd:ee:01'')],
      nm_scan = (\<lambda>r. Some [\<lparr>host = ''192.168.1.5'', known = True,
                               addr_mac = Some ''AA:BB:CC:DD:EE:01'', nm_hostname = []\<rparr>]),
      get_hostname = unresolved, clock = ticking, strftime = plain_time\<rparr>"

text \<open>A cycle in which every backend answers and finds nothing.\<close>

definition quiet_env :: scan_env where
  "quiet_env =
     \<lparr>windows = False, arp_stdout = None, srp_answers = Some [],
      nm_scan = (\<lambda>r. Some []), get_hostname = unresolved, clock = ticking,
      strftime = plain_time\<rparr>"

definition new_scanner :: "dm_state \<Rightarrow> bool \<Rightarrow> scanner" where
  "new_scanner dm avail = \<lparr>device_manager = dm, nmap_available = avail, nm = avail\<rparr>"

text \<open>
  The manager and the store after the laptop has been blacklisted with reason "curfew".
\<close>

definition blocked_manager :: dm_state where
  "blocked_manager =
     fst (snd (blacklist_device ''2026-01-01T22:00:00'' ''AA:BB:CC:DD:EE:01'' ''curfew''
                 seen_manager open_store))"

definition blocked_store :: store where
  "blocked_store =
     snd (snd (blacklist_device ''2026-01-01T22:00:00'' ''AA:BB:CC:DD:EE:01'' ''curfew''
                 seen_manager open_store))"

section \<open>Facts about the directory\<close>

lemma update_device_other:
  "k \<noteq> mac d \<Longrightarrow>
     map_of (devices (update_device t d s)) k = map_of (devices s) k \<and>
     map_of (connection_times (update_device t d s)) k = map_of (connection_times s) k"
  by (simp add: update_device_def Let_def AList.update_conv' split: option.splits)

lemma update_device_first:
  "map_of (connection_times s) (mac d) = None \<Longrightarrow>
     map_of (devices (update_device t d s)) (mac d) =
       Some \<lparr>ip = ip d, mac = mac d, hostname = hostname d, first_seen = t, last_seen = t,
             connection_duration = t - t, is_blacklisted = (mac d \<in> fst ` set (blacklist s))\<rparr> \<and>
     map_of (connection_times (update_device t d s)) (mac d) = Some t"
  by (simp add: update_device_def Let_def AList.update_conv')

lemma update_device_again:
  "map_of (connection_times s) (mac d) = Some t0 \<Longrightarrow>
     map_of (devices (update_device t d s)) (mac d) =
       Some \<lparr>ip = ip d, mac = mac d, hostname = hostname d, first_seen = t0, last_seen = t,
             connection_duration = t - t0, is_blacklisted = (mac d \<in> fst ` set (blacklist s))\<rparr> \<and>
     map_of (connection_times (update_device t d s)) (mac d) = Some t0"
  by (simp add: update_device_def Let_def AList.update_conv')

lemma update_device_keys:
  "fst ` set (devices (update_device t d s)) = insert (mac d) (fst ` set (devices s))"
  by (simp add: update_device_def Let_def AList.dom_update split: option.splits prod.splits)

lemma tracked_update_device: "tracked m t0 s \<Longrightarrow> tracked m t0 (update_device t d s)"
proof (cases "mac d = m")
  case True
  assume "tracked m t0 s"
  then have "map_of (connection_times s) (mac d) = Some t0"
    using True by (simp add: tracked_def)
  from update_device_again [OF this, of t] show ?thesis
    using True by (simp add: tracked_def)
next
  case False
  assume "tracked m t0 s"
  then show ?thesis
    using update_device_other [of m d t s] False by (simp add: tracked_def)
qed

lemma tracked_run_updates: "tracked m t0 s \<Longrightarrow> tracked m t0 (run_updates cs s)"
  by (induction cs arbitrary: s) (auto simp: tracked_update_device)

lemma last_seen_update_device:
  assumes "last_seen_of m s = Some l" and "l \<le> T" and "T \<le> t"
  shows "\<exists>l'. last_seen_of m (update_device t d s) = Some l' \<and> l \<le> l' \<and> l' \<le> t"
proof (cases "mac d = m")
  case True
  have "last_seen_of m (update_device t d s) = Some t"
    using True
    by (simp add: last_seen_of_def update_device_def Let_def AList.update_conv'
        split: option.splits prod.splits)
  then show ?thesis using assms by simp
next
  case False
  then have "last_seen_of m (update_device t d s) = Some l"
    using assms(1) update_device_other [of m d t s] by (simp add: last_seen_of_def)
  then show ?thesis using assms by simp
qed

lemma last_seen_run_updates:
  assumes "last_seen_of m s = Some l" and "l \<le> T" and "sorted (T # map fst cs)"
  shows "\<exists>l'. last_seen_of m (run_updates cs s) = Some l' \<and> l \<le> l' \<and>
              l' \<le> last (T # map fst cs)"
  using assms
proof (induction cs arbitrary: s l T)
  case Nil
  then show ?case by simp
next
  case (Cons c cs)
  obtain t d where c: "c = (t, d)" by (cases c)
  from Cons.prems(3) have Tt: "T \<le> t" and srt: "sorted (t # map fst cs)"
    by (simp_all add: c)
  from last_seen_update_device [OF Cons.prems(1) Cons.prems(2) Tt]
  obtain l1 where l1: "last_seen_of m (update_device t d s) = Some l1" "l \<le> l1" "l1 \<le> t"
    by blast
  from Cons.IH [OF l1(1) l1(3) srt]
  obtain l' where "last_seen_of m (run_updates cs (update_device t d s)) = Some l'"
    "l1 \<le> l'" "l' \<le> last (t # map fst cs)" by blast
  then show ?case using l1(2) by (auto simp: c)
qed

lemma run_updates_append: "run_updates (cs @ cs') s = run_updates cs' (run_updates cs s)"
  by (induction cs arbitrary: s) auto

lemma get_all_devices_macs: "map view_mac (get_all_devices f now s) = map fst (devices s)"
  by (simp add: get_all_devices_def split_beta)

lemma listed_flag_lookup:
  "listed_flag f now s m = map_option is_blacklisted (map_of (devices s) m)"
proof -
  have "map_option view_is_blacklisted
          (find (\<lambda>v. view_mac v = m)
             (map (\<lambda>(k, info).
                \<lparr>view_mac = k, view_ip = ip info, view_hostname = hostname info,
                 view_connection_duration = format_duration (connection_duration info),
                 view_is_blacklisted = is_blacklisted info,
                 view_first_seen = f (first_seen info),
                 status = (if now - last_seen info < 300 then ''ACTIVE'' else ''OFFLINE'')\<rparr>) xs))
        = map_option is_blacklisted (map_of xs m)" for xs
    by (induction xs) auto
  then show ?thesis by (simp add: listed_flag_def get_all_devices_def)
qed

lemma blacklist_device_devices:
  "devices (fst (snd (blacklist_device ts m r s st))) = devices s"
  by (simp add: blacklist_device_def Let_def split: sum.splits)

lemma remove_from_blacklist_devices:
  "devices (fst (snd (remove_from_blacklist m s st))) = devices s"
  by (simp add: remove_from_blacklist_def Let_def split: sum.splits option.splits)

text \<open>The manager that \<^verbatim>\<open>__init__\<close> builds holds what \<^verbatim>\<open>load_blacklist\<close> reads from the store.\<close>

lemma DeviceManager_init_in_sync:
  "DeviceManager_init st = Inr (Some s) \<Longrightarrow> load_blacklist st = Inr (Entries (blacklist s))"
  by (auto simp: DeviceManager_init_def split: sum.splits loaded.splits)

section \<open>Facts about the merge\<close>

lemma put_all_lookup:
  "map_of (put_all ds acc) m =
     (if filter (\<lambda>d. mac d = m) ds = [] then map_of acc m
      else Some (last (filter (\<lambda>d. mac d = m) ds)))"
proof (induction ds arbitrary: acc)
  case Nil
  then show ?case by (simp add: put_all_def)
next
  case (Cons d ds)
  have step: "put_all (d # ds) acc = put_all ds (AList.update (mac d) d acc)"
    by (simp add: put_all_def)
  show ?case
    unfolding step Cons.IH by (simp add: AList.update_conv')
qed

lemma update_all_keys:
  "fst ` set (devices s) \<subseteq> fst ` set (devices (snd (update_all clk k xs s)))"
proof (induction clk k xs s rule: update_all.induct)
  case (1 clk k s)
  then show ?case by simp
next
  case (2 clk k m d rest s)
  show ?case
  proof (cases "m = ''Unknown''")
    case True
    with 2 show ?thesis by simp
  next
    case False
    have "fst ` set (devices s) \<subseteq> fst ` set (devices (update_device (clk k) d s))"
      by (auto simp: update_device_keys)
    with 2 False show ?thesis by auto
  qed
qed

lemma scan_nmap_manager: "device_manager (snd (scan_nmap cfg env sc)) = device_manager sc"
  by (simp add: scan_nmap_def split: option.splits)

lemma get_connected_devices_unfold:
  "get_connected_devices cfg env sc =
     (let merged = merged_devices (scan_arp cfg env) (fst (scan_nmap cfg env sc));
          sc1 = snd (scan_nmap cfg env sc);
          merged' = (if merged = [] then put_all (scan_multiple_ranges cfg env sc1) merged
                     else merged);
          r = update_all (clock env) 0 merged' (device_manager sc)
      in (get_all_devices (strftime env) (clock env (fst r)) (snd r),
          sc1\<lparr>device_manager := snd r\<rparr>))"
  by (simp add: get_connected_devices_def Let_def split_beta scan_nmap_manager)

text \<open>
  The parts of the validity filter that hold for every observation: the null hardware
  address and the address of the scanning host are rejected.
\<close>

lemma is_valid_device_rejects:
  "\<not> is_valid_device cfg a ''00:00:00:00:00:00''"
  "\<not> is_valid_device cfg (LOCAL_IP cfg) m"
  by (simp_all add: is_valid_device_def)

section \<open>The claims\<close>

text \<open>
  C1, as stated, at a concrete input: the laptop was observed at time 700 and is then
  blacklisted with reason "curfew". The call raises after storing the entry; the MAC is
  in the blacklist, and the list still shows \<^verbatim>\<open>is_blacklisted = False\<close> for it.
\<close>

theorem list_after_blacklist_stale:
  "''AA:BB:CC:DD:EE:01'' \<in> fst ` set (blacklist (fst (snd
       (blacklist_device ''2026-01-01T22:00:00'' ''AA:BB:CC:DD:EE:01'' ''curfew''
          seen_manager open_store))))
   \<and> listed_flag plain_time 1000 (fst (snd
       (blacklist_device ''2026-01-01T22:00:00'' ''AA:BB:CC:DD:EE:01'' ''curfew''
          seen_manager open_store))) ''AA:BB:CC:DD:EE:01'' = Some False"
  by code_simp

text \<open>
  C1 (amended): of the derived fields \<^verbatim>\<open>get_all_devices\<close> returns, only \<open>status\<close> is
  computed at call time, from the current time. \<^verbatim>\<open>connection_duration\<close> and
  \<^verbatim>\<open>is_blacklisted\<close> are the values the last \<^verbatim>\<open>update_device\<close> for that MAC stored.
  \<^verbatim>\<open>blacklist_device(mac)\<close> leaves the list as it was; once \<^verbatim>\<open>update_device\<close> has been
  called for that MAC after it, the list shows \<^verbatim>\<open>is_blacklisted = True\<close> for it.
\<close>

theorem list_fields_from_last_update:
  "(i < length (devices s) \<longrightarrow>
      (status (get_all_devices f now s ! i) = ''ACTIVE'' \<longleftrightarrow>
         now - last_seen (snd (devices s ! i)) < 300) \<and>
      view_is_blacklisted (get_all_devices f now s ! i) = is_blacklisted (snd (devices s ! i)) \<and>
      view_connection_duration (get_all_devices f now s ! i)
        = format_duration (connection_duration (snd (devices s ! i))))
   \<and> get_all_devices f now (fst (snd (blacklist_device ts m r s st))) = get_all_devices f now s
   \<and> (mac d = m \<longrightarrow>
        listed_flag f now (update_device t d (fst (snd (blacklist_device ts m r s st)))) m
          = Some True)"
proof -
  let ?s' = "fst (snd (blacklist_device ts m r s st))"
  have a: "i < length (devices s) \<longrightarrow>
      (status (get_all_devices f now s ! i) = ''ACTIVE'' \<longleftrightarrow>
         now - last_seen (snd (devices s ! i)) < 300) \<and>
      view_is_blacklisted (get_all_devices f now s ! i) = is_blacklisted (snd (devices s ! i)) \<and>
      view_connection_duration (get_all_devices f now s ! i)
        = format_duration (connection_duration (snd (devices s ! i)))"
    by (simp add: get_all_devices_def split_beta)
  have b: "get_all_devices f now ?s' = get_all_devices f now s"
    by (simp add: get_all_devices_def blacklist_device_devices)
  have inbl: "m \<in> fst ` set (blacklist ?s')"
    by (simp add: blacklist_device_def Let_def AList.dom_update split: sum.splits)
  have c: "listed_flag f now (update_device t d ?s') m = Some True" if md: "mac d = m"
  proof -
    have "map_option is_blacklisted (map_of (devices (update_device t d ?s')) (mac d))
            = Some True"
      using inbl md
      by (simp add: update_device_def Let_def AList.update_conv'
          split: option.splits prod.splits)
    then show ?thesis using md by (simp add: listed_flag_lookup)
  qed
  from a b c show ?thesis by blast
qed

theorem list_fields_from_last_update_witness:
  "0 < length (devices seen_manager)
   \<and> mac laptop = ''AA:BB:CC:DD:EE:01''
   \<and> view_is_blacklisted (get_all_devices plain_time 1000 seen_manager ! 0) = False
   \<and> (status (get_all_devices plain_time 1000 seen_manager ! 0) = ''ACTIVE'') = False
   \<and> listed_flag plain_time 1000
        (update_device 900 laptop (fst (snd
           (blacklist_device ''2026-01-01T22:00:00'' ''AA:BB:CC:DD:EE:01'' ''curfew''
              seen_manager open_store)))) ''AA:BB:CC:DD:EE:01'' = Some True"
proof -
  have h1: "0 < length (devices seen_manager)" by code_simp
  have h2: "mac laptop = ''AA:BB:CC:DD:EE:01''" by (simp add: laptop_def)
  have v1: "is_blacklisted (snd (devices seen_manager ! 0)) = False" by code_simp
  have v2: "last_seen (snd (devices seen_manager ! 0)) = 700" by code_simp
  from list_fields_from_last_update
    [where i = 0 and s = seen_manager and f = plain_time and now = 1000 and d = laptop
       and m = "''AA:BB:CC:DD:EE:01''" and ts = "''2026-01-01T22:00:00''"
       and r = "''curfew''" and st = open_store and t = 900]
    h1 h2 v1 v2
  show ?thesis by simp
qed

text \<open>
  C2, at the failing input: in a /25 network the \<^verbatim>\<open>arp -a\<close> table of Windows lists the
  broadcast entry \<^verbatim>\<open>192.168.1.127  ff-ff-ff-ff-ff-ff\<close>. \<^verbatim>\<open>get_windows_arp_table\<close> rewrites
  the hardware address to \<^verbatim>\<open>FF:FF:FF:FF:FF:FF\<close>, the filter compares it with
  \<^verbatim>\<open>FF-FF-FF-FF-FF-FF\<close> and lets it pass, and the broadcast address is listed as a device.
\<close>

theorem broadcast_mac_passes_filter:
  "is_valid_device subnet_config ''192.168.1.127'' ''FF:FF:FF:FF:FF:FF''
   \<and> map view_mac (fst (get_connected_devices subnet_config arp_table_env
                          (new_scanner empty_manager False)))
       = [''FF:FF:FF:FF:FF:FF'']"
  by code_simp

text \<open>
  C3: when the first \<^verbatim>\<open>update_device\<close> call for a MAC reads the time \<open>t1\<close>, then after
  any further calls \<open>cs\<close> (for this or other MACs) the record of that MAC has
  \<open>first_seen = t1\<close>; and when the clock values read by the calls are non-decreasing,
  the \<open>last_seen\<close> of the record after \<open>cs\<close> is at most the one after any
  continuation \<open>cs @ cs'\<close>.
\<close>

theorem first_seen_set_once:
  assumes "map_of (connection_times s) m = None" and "mac d1 = m"
  shows "(\<exists>r. map_of (devices (run_updates cs (update_device t1 d1 s))) m = Some r \<and>
              first_seen r = t1)
       \<and> (sorted (t1 # map fst (cs @ cs')) \<longrightarrow>
            (\<exists>l l'. last_seen_of m (run_updates cs (update_device t1 d1 s)) = Some l \<and>
                     last_seen_of m (run_updates (cs @ cs') (update_device t1 d1 s)) = Some l' \<and>
                     l \<le> l'))"
proof -
  let ?s1 = "update_device t1 d1 s"
  from assms update_device_first [of s d1 t1]
  have tr: "tracked m t1 ?s1" and ls: "last_seen_of m ?s1 = Some t1"
    by (auto simp: tracked_def last_seen_of_def)
  have first: "\<exists>r. map_of (devices (run_updates cs ?s1)) m = Some r \<and> first_seen r = t1"
    using tracked_run_updates [OF tr, of cs] by (simp add: tracked_def)
  have mono: "\<exists>l l'. last_seen_of m (run_updates cs ?s1) = Some l \<and>
                     last_seen_of m (run_updates (cs @ cs') ?s1) = Some l' \<and> l \<le> l'"
    if srt: "sorted (t1 # map fst (cs @ cs'))"
  proof -
    from srt have s1: "sorted (t1 # map fst cs)"
      by (simp add: sorted_append)
    from last_seen_run_updates [OF ls order_refl s1]
    obtain l where l: "last_seen_of m (run_updates cs ?s1) = Some l"
      "l \<le> last (t1 # map fst cs)"
      by blast
    from srt have s2: "sorted (last (t1 # map fst cs) # map fst cs')"
      by (cases cs rule: rev_cases) (auto simp: sorted_append)
    from last_seen_run_updates [OF l(1) l(2) s2]
    obtain l' where "last_seen_of m (run_updates cs' (run_updates cs ?s1)) = Some l'" "l \<le> l'"
      by blast
    then show ?thesis using l(1) by (simp add: run_updates_append)
  qed
  from first mono show ?thesis by blast
qed

theorem first_seen_set_once_witness:
  "map_of (connection_times empty_manager) (mac laptop) = None
   \<and> sorted (700 # map fst ([(750, laptop_win), (800, printer)] @ [(1200::real, laptop)]))
   \<and> (\<exists>r. map_of (devices (run_updates [(750, laptop_win), (800, printer)]
                             (update_device 700 laptop empty_manager))) (mac laptop) = Some r \<and>
           first_seen r = 700)
   \<and> (\<exists>l l'. last_seen_of (mac laptop)
                 (run_updates [(750, laptop_win), (800, printer)]
                    (update_device 700 laptop empty_manager)) = Some l \<and>
              last_seen_of (mac laptop)
                 (run_updates ([(750, laptop_win), (800, printer)] @ [(1200, laptop)])
                    (update_device 700 laptop empty_manager)) = Some l' \<and>
              l \<le> l')"
proof -
  have h1: "map_of (connection_times empty_manager) (mac laptop) = None"
    by (simp add: empty_manager_def)
  have h2: "sorted (700 # map fst ([(750, laptop_win), (800, printer)] @ [(1200::real, laptop)]))"
    by simp
  from first_seen_set_once [OF h1 refl, of "[(750, laptop_win), (800, printer)]" 700
      "[(1200, laptop)]"] h1 h2
  show ?thesis by blast
qed

text \<open>
  C4: the status \<^verbatim>\<open>get_all_devices\<close> derives for a record is \<^verbatim>\<open>ACTIVE\<close> if and only if
  \<open>now - last_seen < 300\<close>, and \<^verbatim>\<open>OFFLINE\<close> otherwise; at exactly 300 seconds it is
  \<^verbatim>\<open>OFFLINE\<close>. The \<open>i\<close>-th element of the list belongs to the \<open>i\<close>-th record.
\<close>

theorem status_active_iff:
  assumes "i < length (devices s)"
  shows "length (get_all_devices f now s) = length (devices s)
     \<and> view_mac (get_all_devices f now s ! i) = fst (devices s ! i)
     \<and> (status (get_all_devices f now s ! i) = ''ACTIVE'' \<longleftrightarrow>
          now - last_seen (snd (devices s ! i)) < 300)
     \<and> (status (get_all_devices f now s ! i) \<noteq> ''ACTIVE'' \<longrightarrow>
          status (get_all_devices f now s ! i) = ''OFFLINE'')
     \<and> (now - last_seen (snd (devices s ! i)) = 300 \<longrightarrow>
          status (get_all_devices f now s ! i) = ''OFFLINE'')"
  using assms by (simp add: get_all_devices_def split_beta)

theorem status_active_iff_witness:
  "0 < length (devices seen_manager)
   \<and> 1000 - last_seen (snd (devices seen_manager ! 0)) = 300
   \<and> status (get_all_devices plain_time 1000 seen_manager ! 0) = ''OFFLINE''
   \<and> status (get_all_devices plain_time 999 seen_manager ! 0) = ''ACTIVE''"
proof -
  have h: "0 < length (devices seen_manager)" by code_simp
  have l: "last_seen (snd (devices seen_manager ! 0)) = 700" by code_simp
  have edge: "1000 - last_seen (snd (devices seen_manager ! 0)) = 300"
    by (simp add: l)
  have before: "999 - last_seen (snd (devices seen_manager ! 0)) < 300"
    by (simp add: l)
  from status_active_iff [OF h, of plain_time 1000] edge
  have off: "status (get_all_devices plain_time 1000 seen_manager ! 0) = ''OFFLINE''"
    by blast
  from status_active_iff [OF h, of plain_time 999] before
  have on: "status (get_all_devices plain_time 999 seen_manager ! 0) = ''ACTIVE''"
    by blast
  from h edge off on show ?thesis by blast
qed

text \<open>
  C5: when the ARP backend reports an observation for a MAC and the nmap backend reports
  one for the same MAC, the merged map of \<^verbatim>\<open>get_connected_devices\<close> holds, for that MAC,
  the (last) nmap observation; when nmap reports exactly one observation \<open>n\<close> for the
  MAC, the merged entry has the ip and the hostname of \<open>n\<close>.
\<close>

theorem nmap_record_wins:
  assumes "a \<in> set arp_devices" and "mac a = m"
      and "n \<in> set nmap_devices" and "mac n = m"
  shows "map_of (merged_devices arp_devices nmap_devices) m =
           Some (last (filter (\<lambda>d. mac d = m) nmap_devices))
       \<and> (filter (\<lambda>d. mac d = m) nmap_devices = [n] \<longrightarrow>
            (\<exists>v. map_of (merged_devices arp_devices nmap_devices) m = Some v \<and>
                 ip v = ip n \<and> hostname v = hostname n))"
proof -
  from assms(3,4) have "n \<in> set (filter (\<lambda>d. mac d = m) nmap_devices)" by simp
  then have ne: "filter (\<lambda>d. mac d = m) nmap_devices \<noteq> []"
    by (metis length_greater_0_conv length_pos_if_in_set)
  then have "map_of (merged_devices arp_devices nmap_devices) m =
           Some (last (filter (\<lambda>d. mac d = m) nmap_devices))"
    by (simp add: merged_devices_def put_all_lookup)
  then show ?thesis by auto
qed

theorem nmap_record_wins_witness:
  "laptop \<in> set [laptop] \<and> mac laptop = ''AA:BB:CC:DD:EE:01''
   \<and> laptop_win \<in> set [printer, laptop_win] \<and> mac laptop_win = ''AA:BB:CC:DD:EE:01''
   \<and> filter (\<lambda>d. mac d = ''AA:BB:CC:DD:EE:01'') [printer, laptop_win] = [laptop_win]
   \<and> (\<exists>v. map_of (merged_devices [laptop] [printer, laptop_win]) ''AA:BB:CC:DD:EE:01'' = Some v \<and>
           ip v = ip laptop_win \<and> hostname v = hostname laptop_win)
   \<and> hostname laptop_win = ''laptop-win''"
proof -
  have h1: "laptop \<in> set [laptop]" by simp
  have h2: "mac laptop = ''AA:BB:CC:DD:EE:01''" by (simp add: laptop_def)
  have h3: "laptop_win \<in> set [printer, laptop_win]" by simp
  have h4: "mac laptop_win = ''AA:BB:CC:DD:EE:01''" by (simp add: laptop_win_def)
  have h5: "filter (\<lambda>d. mac d = ''AA:BB:CC:DD:EE:01'') [printer, laptop_win] = [laptop_win]"
    by (simp add: laptop_win_def printer_def)
  have h6: "hostname laptop_win = ''laptop-win''" by (simp add: laptop_win_def)
  from nmap_record_wins [OF h1 h2 h3 h4] h1 h2 h3 h4 h5 h6
  show ?thesis by blast
qed

text \<open>
  C6: when the MAC is not blacklisted and the store holds what the manager holds,
  \<^verbatim>\<open>blacklist_device(mac, reason)\<close> followed by \<^verbatim>\<open>remove_from_blacklist(mac)\<close> leaves a store
  from which \<^verbatim>\<open>load_blacklist\<close> reads the mapping it read before the add, and the mapping
  of the manager is the one before the add.
\<close>

theorem blacklist_add_remove_roundtrip:
  assumes "m \<notin> fst ` set (blacklist s)"
      and "load_blacklist st = Inr (Entries (blacklist s))"
  shows "load_blacklist (snd (snd (add_then_remove ts m r s st))) = load_blacklist st
       \<and> blacklist (fst (snd (add_then_remove ts m r s st))) = blacklist s"
proof -
  obtain o1 s1 st1 where add: "blacklist_device ts m r s st = (o1, s1, st1)"
    by (cases "blacklist_device ts m r s st")
  obtain o2 s2 st2 where rm: "remove_from_blacklist m s1 st1 = (o2, s2, st2)"
    by (cases "remove_from_blacklist m s1 st1")
  let ?e = "\<lparr>timestamp = ts, reason = r, entry_ip = map_option ip (map_of (devices s) m)\<rparr>"
  have s1: "blacklist s1 = AList.update m ?e (blacklist s)"
    using add by (auto simp: blacklist_device_def Let_def split: sum.splits if_splits)
  have w: "writable st1 = writable st"
    using add
    by (auto simp: blacklist_device_def save_blacklist_def Let_def split: sum.splits if_splits)
  have undo: "AList.delete m (blacklist s1) = blacklist s"
    using assms(1) by (simp add: s1 AList.delete_update_same)
  have look: "map_of (blacklist s1) m = Some ?e"
    by (simp add: s1 AList.update_conv')
  have s2: "blacklist s2 = blacklist s"
    using rm look undo
    by (auto simp: remove_from_blacklist_def Let_def split: sum.splits if_splits)
  have "load_blacklist st2 = load_blacklist st"
  proof (cases "writable st")
    case True
    then have "blacklist_file st2 = Stored (blacklist s)"
      using rm look undo w
      by (auto simp: remove_from_blacklist_def save_blacklist_def Let_def split: if_splits)
    then show ?thesis using assms(2) by (simp add: load_blacklist_def read_blacklist_def)
  next
    case False
    then have "st1 = st" using add
      by (auto simp: blacklist_device_def save_blacklist_def Let_def)
    moreover have "st2 = st1" using rm look False w
      by (auto simp: remove_from_blacklist_def save_blacklist_def Let_def)
    ultimately show ?thesis by simp
  qed
  with s2 show ?thesis by (simp add: add_then_remove_def add rm)
qed

theorem blacklist_add_remove_roundtrip_witness:
  "''AA:BB:CC:DD:EE:01'' \<notin> fst ` set (blacklist seen_manager)
   \<and> load_blacklist open_store = Inr (Entries (blacklist seen_manager))
   \<and> load_blacklist (snd (snd (add_then_remove ''2026-01-01T22:00:00'' ''AA:BB:CC:DD:EE:01''
                                  ''curfew'' seen_manager open_store)))
       = load_blacklist open_store
   \<and> blacklist (fst (snd (add_then_remove ''2026-01-01T22:00:00'' ''AA:BB:CC:DD:EE:01''
                             ''curfew'' seen_manager open_store)))
       = blacklist seen_manager"
proof -
  have h1: "''AA:BB:CC:DD:EE:01'' \<notin> fst ` set (blacklist seen_manager)" by code_simp
  have h2: "load_blacklist open_store = Inr (Entries (blacklist seen_manager))" by code_simp
  from blacklist_add_remove_roundtrip [OF h1 h2] h1 h2 show ?thesis by blast
qed

text \<open>
  C7: no operation of the directory deletes a device record. After a scan cycle every
  MAC known before is in the list \<^verbatim>\<open>get_connected_devices\<close> returns, and the list has one
  element per record of the directory. When the ARP scan, the nmap scan and the scan of
  the common ranges all return no observation, the records are those of before the cycle
  and the list is \<^verbatim>\<open>get_all_devices\<close> of them. \<^verbatim>\<open>update_device\<close> keeps every key, and
  \<^verbatim>\<open>blacklist_device\<close> and \<^verbatim>\<open>remove_from_blacklist\<close> leave the records untouched.
\<close>

theorem devices_never_deleted:
  "fst ` set (devices (device_manager sc))
     \<subseteq> view_mac ` set (fst (get_connected_devices cfg env sc))
   \<and> map view_mac (fst (get_connected_devices cfg env sc))
       = map fst (devices (device_manager (snd (get_connected_devices cfg env sc))))
   \<and> (scan_arp cfg env = [] \<and> fst (scan_nmap cfg env sc) = [] \<and>
        scan_multiple_ranges cfg env (snd (scan_nmap cfg env sc)) = [] \<longrightarrow>
          devices (device_manager (snd (get_connected_devices cfg env sc)))
            = devices (device_manager sc) \<and>
          fst (get_connected_devices cfg env sc)
            = get_all_devices (strftime env) (clock env 0) (device_manager sc))
   \<and> fst ` set (devices s) \<subseteq> fst ` set (devices (update_device t d s))
   \<and> devices (fst (snd (blacklist_device ts m r s st))) = devices s
   \<and> devices (fst (snd (remove_from_blacklist m s st))) = devices s"
proof -
  have keep: "fst ` set (devices (device_manager sc))
     \<subseteq> view_mac ` set (fst (get_connected_devices cfg env sc))"
  proof -
    have "view_mac ` set (fst (get_connected_devices cfg env sc))
            = set (map view_mac (fst (get_connected_devices cfg env sc)))" by simp
    also have "\<dots> \<supseteq> fst ` set (devices (device_manager sc))"
      unfolding get_connected_devices_unfold Let_def fst_conv get_all_devices_macs
      using update_all_keys by simp
    finally show ?thesis .
  qed
  have same: "map view_mac (fst (get_connected_devices cfg env sc))
       = map fst (devices (device_manager (snd (get_connected_devices cfg env sc))))"
    by (simp add: get_connected_devices_unfold Let_def get_all_devices_macs)
  have quiet: "devices (device_manager (snd (get_connected_devices cfg env sc)))
            = devices (device_manager sc) \<and>
          fst (get_connected_devices cfg env sc)
            = get_all_devices (strftime env) (clock env 0) (device_manager sc)"
    if "scan_arp cfg env = []" "fst (scan_nmap cfg env sc) = []"
       "scan_multiple_ranges cfg env (snd (scan_nmap cfg env sc)) = []"
    using that by (simp add: get_connected_devices_unfold Let_def merged_devices_def put_all_def)
  have upd: "fst ` set (devices s) \<subseteq> fst ` set (devices (update_device t d s))"
    by (auto simp: update_device_keys)
  from keep same quiet upd blacklist_device_devices [of ts m r s st]
    remove_from_blacklist_devices [of m s st]
  show ?thesis by blast
qed

theorem devices_never_deleted_witness:
  "scan_arp example_config quiet_env = []
   \<and> fst (scan_nmap example_config quiet_env (new_scanner seen_manager True)) = []
   \<and> scan_multiple_ranges example_config quiet_env
        (snd (scan_nmap example_config quiet_env (new_scanner seen_manager True))) = []
   \<and> devices (device_manager (snd (get_connected_devices example_config quiet_env
                                      (new_scanner seen_manager True))))
       = devices (device_manager (new_scanner seen_manager True))
   \<and> map view_mac (fst (get_connected_devices example_config quiet_env
                          (new_scanner seen_manager True)))
       = [''AA:BB:CC:DD:EE:01'']"
proof -
  let ?sc = "new_scanner seen_manager True"
  have h1: "scan_arp example_config quiet_env = []" by code_simp
  have h2: "fst (scan_nmap example_config quiet_env ?sc) = []" by code_simp
  have h3: "scan_multiple_ranges example_config quiet_env
              (snd (scan_nmap example_config quiet_env ?sc)) = []" by code_simp
  have keys: "map fst (devices (device_manager ?sc)) = [''AA:BB:CC:DD:EE:01'']" by code_simp
  from devices_never_deleted
    [where sc = ?sc and cfg = example_config and env = quiet_env and s = seen_manager
       and t = 0 and d = laptop and ts = "[]" and m = "[]" and r = "[]" and st = open_store]
    h1 h2 h3
  have same: "devices (device_manager (snd (get_connected_devices example_config quiet_env ?sc)))
            = devices (device_manager ?sc)"
    and list: "map view_mac (fst (get_connected_devices example_config quiet_env ?sc))
       = map fst (devices (device_manager (snd
           (get_connected_devices example_config quiet_env ?sc))))"
    by blast+
  from h1 h2 h3 same list keys show ?thesis by simp
qed



text \<open>
  C9, at the failing input: on a host that is not Windows, scapy reports the interface
  as \<^verbatim>\<open>aa:bb:cc:dd:ee:01\<close> and \<^verbatim>\<open>scan_arp\<close> keeps it as it is, while \<^verbatim>\<open>scan_nmap\<close> stores
  the same interface as \<^verbatim>\<open>AA:BB:CC:DD:EE:01\<close>: the directory holds two records for one
  physical interface.
\<close>

theorem mac_case_differs_between_backends:
  "map view_mac (fst (get_connected_devices example_config linux_env
                        (new_scanner empty_manager True)))
     = [''aa:bb:cc:dd:ee:01'', ''AA:BB:CC:DD:EE:01'']"
  by code_simp

text \<open>
  C10: when the store can be written, \<^verbatim>\<open>blacklist_device\<close> raises \<^verbatim>\<open>NameError\<close> whenever
  the MAC has a device record with a non-empty ip, and \<^verbatim>\<open>remove_from_blacklist\<close> raises
  \<^verbatim>\<open>NameError\<close> whenever the stored entry has a non-empty ip; in both cases the blacklist
  of the manager has been changed and saved to the store before the exception.
\<close>

theorem blacklist_ops_raise_NameError:
  assumes "writable st"
  shows "(map_of (devices s) m = Some d \<and> ip d \<noteq> [] \<longrightarrow>
            blacklist_device ts m r s st =
              (Inl (NameError ''platform''),
               s\<lparr>blacklist := AList.update m
                    \<lparr>timestamp = ts, reason = r, entry_ip = Some (ip d)\<rparr> (blacklist s)\<rparr>,
               st\<lparr>blacklist_file := Stored (AList.update m
                    \<lparr>timestamp = ts, reason = r, entry_ip = Some (ip d)\<rparr> (blacklist s))\<rparr>))
       \<and> (map_of (blacklist s) m = Some e \<and> entry_ip e = Some a \<and> a \<noteq> [] \<longrightarrow>
            remove_from_blacklist m s st =
              (Inl (NameError ''platform''),
               s\<lparr>blacklist := AList.delete m (blacklist s)\<rparr>,
               st\<lparr>blacklist_file := Stored (AList.delete m (blacklist s))\<rparr>))"
  using assms
  by (simp add: blacklist_device_def remove_from_blacklist_def save_blacklist_def truthy_def
      Let_def)

theorem blacklist_ops_raise_NameError_witness:
  "writable open_store
   \<and> fst (blacklist_device ''2026-01-01T22:00:00'' ''AA:BB:CC:DD:EE:01'' ''curfew''
            seen_manager open_store) = Inl (NameError ''platform'')
   \<and> blacklist_file (snd (snd (blacklist_device ''2026-01-01T22:00:00'' ''AA:BB:CC:DD:EE:01''
                                  ''curfew'' seen_manager open_store)))
       = Stored [(''AA:BB:CC:DD:EE:01'',
                  \<lparr>timestamp = ''2026-01-01T22:00:00'', reason = ''curfew'',
                   entry_ip = Some ''192.168.1.5''\<rparr>)]
   \<and> writable blocked_store
   \<and> fst (remove_from_blacklist ''AA:BB:CC:DD:EE:01'' blocked_manager blocked_store)
       = Inl (NameError ''platform'')
   \<and> blacklist_file (snd (snd (remove_from_blacklist ''AA:BB:CC:DD:EE:01''
                                  blocked_manager blocked_store)))
       = Stored []"
proof -
  let ?M = "''AA:BB:CC:DD:EE:01''"
  let ?T = "''2026-01-01T22:00:00''"
  let ?rec = "\<lparr>ip = ''192.168.1.5'', mac = ?M, hostname = ''laptop'', first_seen = 700,
               last_seen = 700, connection_duration = 0, is_blacklisted = False\<rparr>"
  let ?e = "\<lparr>timestamp = ?T, reason = ''curfew'', entry_ip = Some ''192.168.1.5''\<rparr>"
  have w1: "writable open_store" by (simp add: open_store_def)
  have d: "map_of (devices seen_manager) ?M = Some ?rec" by code_simp
  have nobl: "blacklist seen_manager = []" by code_simp
  from blacklist_ops_raise_NameError
    [OF w1, where s = seen_manager and m = ?M and d = ?rec and ts = ?T and r = "''curfew''"
       and e = ?e and a = "''192.168.1.5''"] d
  have add: "blacklist_device ?T ?M ''curfew'' seen_manager open_store =
      (Inl (NameError ''platform''),
       seen_manager\<lparr>blacklist := AList.update ?M ?e (blacklist seen_manager)\<rparr>,
       open_store\<lparr>blacklist_file := Stored (AList.update ?M ?e (blacklist seen_manager))\<rparr>)"
    by simp
  have w2: "writable blocked_store"
    by (simp add: blocked_store_def add w1)
  have look: "map_of (blacklist blocked_manager) ?M = Some ?e"
    by (simp add: blocked_manager_def add nobl)
  have gone: "AList.delete ?M (blacklist blocked_manager) = []"
    by (simp add: blocked_manager_def add nobl)
  from blacklist_ops_raise_NameError
    [OF w2, where s = blocked_manager and m = ?M and d = ?rec and ts = ?T and r = "''curfew''"
       and e = ?e and a = "''192.168.1.5''"] look
  have rm: "remove_from_blacklist ?M blocked_manager blocked_store =
      (Inl (NameError ''platform''),
       blocked_manager\<lparr>blacklist := AList.delete ?M (blacklist blocked_manager)\<rparr>,
       blocked_store\<lparr>blacklist_file := Stored (AList.delete ?M (blacklist blocked_manager))\<rparr>)"
    by simp
  show ?thesis
    by (simp add: add rm w1 w2 nobl gone)
qed

end
